theory Spec2Isabelle
  imports Main "HOL-Library.Log_Nat"
begin

section \<open>CorePost server: data model\<close>

text \<open>
  The server of \<^verbatim>\<open>main.py\<close> keeps one SQLite table, \<^verbatim>\<open>devices\<close>, and answers HTTP
  requests against it. The table is a list of rows in rowid order (\<^verbatim>\<open>fetchone\<close> returns
  the first match, an \<^verbatim>\<open>UPDATE\<close> rewrites every match). A \<^verbatim>\<open>datetime\<close> is a count of
  microseconds, its resolution; \<^verbatim>\<open>isoformat\<close> followed by \<^verbatim>\<open>fromisoformat\<close> gives the
  value back, so the columns \<^verbatim>\<open>lastSeen\<close> and \<^verbatim>\<open>pendingLockTime\<close> hold a datetime or NULL.
  A datetime is naive, as \<^verbatim>\<open>datetime.now()\<close> gives it: the wall-clock time of the server's
  zone. Header values are strings of 8-bit characters, as the framework decodes them.
  The columns \<^verbatim>\<open>emergencyState\<close> and \<^verbatim>\<open>userCanUnlock\<close> are integers: the server never
  writes NULL into them.
\<close>

type_synonym datetime = int

section \<open>Differences of datetimes in seconds\<close>

text \<open>
  \<^verbatim>\<open>(a - b).total_seconds()\<close> is the difference in microseconds divided by \<open>10^6\<close>, as
  the nearest double (53 bits, ties to even); the server compares it with an integer
  number of seconds, which Python does exactly. A double is a rational here. For
  \<open>a\<close> microseconds, \<open>a > 0\<close>, \<open>binade a + 1\<close> is the bit length of \<open>a * 2^20 div 10^6\<close>, so that
  \<open>2 ^ binade a \<le> a * 2^20 / 10^6 < 2 ^ (binade a + 1)\<close>; the doubles next to \<open>a / 10^6\<close> are
  \<open>2 ^ binade a / 2^72\<close> apart, and \<open>mantissa a\<close> counts them.
\<close>

fun bit_length :: "nat \<Rightarrow> nat" where
  "bit_length n = (if n = 0 then 0 else Suc (bit_length (n div 2)))"

declare bit_length.simps [simp del]

definition round_half_even :: "nat \<Rightarrow> nat \<Rightarrow> nat" where
  "round_half_even n d =
     (let q = n div d; r = n mod d
      in if 2 * r < d then q else if d < 2 * r then q + 1 else if even q then q else q + 1)"

definition binade :: "nat \<Rightarrow> nat" where
  "binade a = bit_length (a * 2 ^ 20 div 1000000) - 1"

definition mantissa :: "nat \<Rightarrow> nat" where
  "mantissa a = round_half_even (a * 2 ^ 72) (1000000 * 2 ^ binade a)"

definition nearest_double :: "nat \<Rightarrow> rat" where
  "nearest_double a = of_nat (mantissa a * 2 ^ binade a) / 2 ^ 72"

definition total_seconds :: "int \<Rightarrow> rat" where
  "total_seconds us =
     (if us = 0 then 0
      else if 0 < us then nearest_double (nat us)
      else - nearest_double (nat (- us)))"

record config =
  needRegistrationApproval :: bool
  needHWID :: bool
  needLockApproval :: bool
  lockApprovalTimeSecond :: int
  adminToken :: string
  hmacWindow :: int

text \<open>The fallback values of \<^verbatim>\<open>server.conf\<close>.\<close>

definition fallback_config :: config where
  "fallback_config =
     \<lparr> needRegistrationApproval = False, needHWID = False, needLockApproval = False,
       lockApprovalTimeSecond = 30, adminToken = ''supersecretadmin'', hmacWindow = 5 \<rparr>"

record device =
  deviceId :: string
  emergencyId :: string
  emergencyState :: int
  token :: string
  lastSeen :: "datetime option"
  hwid :: "string option"
  pendingLockTime :: "datetime option"
  userCanUnlock :: int

type_synonym db = "device list"

text \<open>
  What a handler gives back: a response, or an exception. \<^verbatim>\<open>HTTPException\<close> carries the
  status code and the detail; \<^verbatim>\<open>TypeError\<close> is the one other exception the handlers can
  raise (the framework answers it with status 500).
\<close>

datatype json = JStr string | JBool bool | JInt int

datatype response =
    JSONResponse nat "(string \<times> json) list"
  | PlainTextResponse nat string

datatype error = HTTPException nat string | TypeError

type_synonym reply = "error + response"

section \<open>Table access\<close>

definition get_client_device :: "db \<Rightarrow> string \<Rightarrow> device option" where
  "get_client_device rows x = find (\<lambda>r. deviceId r = x) rows"

definition get_mobile_device_by_emergency :: "db \<Rightarrow> string \<Rightarrow> device option" where
  "get_mobile_device_by_emergency rows x = find (\<lambda>r. emergencyId r = x) rows"

text \<open>\<^verbatim>\<open>UPDATE devices SET ... WHERE ...\<close> and the cursor's \<^verbatim>\<open>rowcount\<close> after it.\<close>

definition sql_update :: "(device \<Rightarrow> bool) \<Rightarrow> (device \<Rightarrow> device) \<Rightarrow> db \<Rightarrow> db" where
  "sql_update cond assign rows = map (\<lambda>r. if cond r then assign r else r) rows"

definition rowcount :: "(device \<Rightarrow> bool) \<Rightarrow> db \<Rightarrow> nat" where
  "rowcount cond rows = length (filter cond rows)"

text \<open>The primary key: no two rows share a \<^verbatim>\<open>deviceId\<close>.\<close>

definition primary_key :: "db \<Rightarrow> bool" where
  "primary_key rows = distinct (map deviceId rows)"

section \<open>Signature verification\<close>

text \<open>
  \<^verbatim>\<open>int(timestamp)\<close> on a string of 8-bit characters: white space around, an optional
  sign, then decimal digits, single underscores allowed between digits, and at most
  4300 digits.
\<close>

definition is_space :: "char \<Rightarrow> bool" where
  "is_space c = (of_char c \<in> {9, 10, 11, 12, 13, 32, 133, 160 :: nat})"

definition is_digit :: "char \<Rightarrow> bool" where
  "is_digit c = (48 \<le> (of_char c :: nat) \<and> (of_char c :: nat) \<le> 57)"

definition digit_val :: "char \<Rightarrow> int" where
  "digit_val c = int (of_char c) - 48"

fun parse_digits :: "bool \<Rightarrow> int \<Rightarrow> string \<Rightarrow> int option" where
  "parse_digits after_digit acc [] = (if after_digit then Some acc else None)"
| "parse_digits after_digit acc (c # cs) =
     (if is_digit c then parse_digits True (10 * acc + digit_val c) cs
      else if c = CHR ''_'' \<and> after_digit then parse_digits False acc cs
      else None)"

definition strip :: "string \<Rightarrow> string" where
  "strip s = rev (dropWhile is_space (rev (dropWhile is_space s)))"

definition parse_unsigned :: "string \<Rightarrow> int option" where
  "parse_unsigned s =
     (if length (filter is_digit s) > 4300 then None else parse_digits False 0 s)"

definition py_int :: "string \<Rightarrow> int option" where
  "py_int s =
     (case strip s of
        [] \<Rightarrow> None
      | c # cs \<Rightarrow>
          if c = CHR ''-'' then map_option uminus (parse_unsigned cs)
          else if c = CHR ''+'' then parse_unsigned cs
          else parse_unsigned (c # cs))"

text \<open>
  \<^verbatim>\<open>hmac.compare_digest\<close> on two \<^verbatim>\<open>str\<close> raises \<^verbatim>\<open>TypeError\<close> when one of them has a
  character outside ASCII.
\<close>

definition is_ascii :: "string \<Rightarrow> bool" where
  "is_ascii s = list_all (\<lambda>c. (of_char c :: nat) < 128) s"

definition compare_digest :: "string \<Rightarrow> string \<Rightarrow> error + bool" where
  "compare_digest a b = (if is_ascii a \<and> is_ascii b then Inr (a = b) else Inl TypeError)"

text \<open>
  Two functions of the standard library are arguments of the verifier. \<open>hexdigest\<close> stands
  for \<^verbatim>\<open>hmac.new(secret.encode(), message.encode(), hashlib.sha256).hexdigest()\<close>, key first.
  \<open>fromtimestamp\<close> stands for \<^verbatim>\<open>datetime.fromtimestamp\<close>: the naive datetime that the server's
  zone reads at a count of seconds since the epoch, or None where it raises (a year
  outside 1 to 9999, a count outside the platform's range).
\<close>

type_synonym hexdigest = "string \<Rightarrow> string \<Rightarrow> string"

type_synonym fromtimestamp = "int \<Rightarrow> datetime option"

definition verify_hmac ::
  "hexdigest \<Rightarrow> fromtimestamp \<Rightarrow> config \<Rightarrow> datetime \<Rightarrow> string \<Rightarrow> string \<Rightarrow> string
     \<Rightarrow> error + bool" where
  "verify_hmac hexdigest fromtimestamp cfg now secret timestamp signature =
     (case py_int timestamp of
        None \<Rightarrow> Inr False
      | Some n \<Rightarrow>
          (case fromtimestamp n of
             None \<Rightarrow> Inr False
           | Some req_time \<Rightarrow>
               if \<bar>total_seconds (now - req_time)\<bar> > of_int (hmacWindow cfg) then Inr False
               else compare_digest (hexdigest secret timestamp) signature))"

definition verifyClientAuth ::
  "hexdigest \<Rightarrow> fromtimestamp \<Rightarrow> config \<Rightarrow> datetime \<Rightarrow> db \<Rightarrow> string \<Rightarrow> string \<Rightarrow> string
     \<Rightarrow> error + device" where
  "verifyClientAuth hexdigest fromtimestamp cfg now rows x_deviceid x_timestamp x_signature =
     (case get_client_device rows x_deviceid of
        None \<Rightarrow> Inl (HTTPException 401 ''Device not found'')
      | Some device \<Rightarrow>
          (case verify_hmac hexdigest fromtimestamp cfg now (token device) x_timestamp
                  x_signature of
             Inl e \<Rightarrow> Inl e
           | Inr ok \<Rightarrow>
               if \<not> ok then Inl (HTTPException 401 ''Invalid HMAC signature'')
               else Inr device))"

definition verifyMobileAuth ::
  "hexdigest \<Rightarrow> fromtimestamp \<Rightarrow> config \<Rightarrow> datetime \<Rightarrow> db \<Rightarrow> string \<Rightarrow> string \<Rightarrow> string
     \<Rightarrow> error + device" where
  "verifyMobileAuth hexdigest fromtimestamp cfg now rows x_emergencyid x_timestamp x_signature =
     (case get_mobile_device_by_emergency rows x_emergencyid of
        None \<Rightarrow> Inl (HTTPException 401 ''Device not found'')
      | Some device \<Rightarrow>
          (case verify_hmac hexdigest fromtimestamp cfg now (token device) x_timestamp
                  x_signature of
             Inl e \<Rightarrow> Inl e
           | Inr ok \<Rightarrow>
               if \<not> ok then Inl (HTTPException 401 ''Invalid HMAC signature'')
               else Inr device))"

section \<open>The endpoints\<close>

text \<open>
  A handler takes the row its authentication dependency returned and the table, and
  gives back its reply and the table as committed. \<open>now\<close> is \<^verbatim>\<open>datetime.now()\<close>.
\<close>

definition clientAmIOk :: "datetime \<Rightarrow> device \<Rightarrow> db \<Rightarrow> reply \<times> db" where
  "clientAmIOk now device rows =
     (let rows' = sql_update (\<lambda>r. deviceId r = deviceId device)
                    (\<lambda>r. r\<lparr>lastSeen := Some now\<rparr>) rows
      in (case get_client_device rows' (deviceId device) of
            Some row \<Rightarrow>
              if emergencyState row = 0 then Inr (JSONResponse 200 [(''status'', JStr ''ok'')])
              else Inl (HTTPException 403 ''Device marked as stolen'')
          | None \<Rightarrow> Inl (HTTPException 403 ''Device marked as stolen''),
          rows'))"

definition clientDecrypt :: "device \<Rightarrow> db \<Rightarrow> reply \<times> db" where
  "clientDecrypt device rows =
     (if emergencyState device \<noteq> 0 then (Inl (HTTPException 403 ''Device marked as stolen''), rows)
      else (Inr (PlainTextResponse 200 (token device)), rows))"

definition mobileCheck :: "config \<Rightarrow> device \<Rightarrow> db \<Rightarrow> reply \<times> db" where
  "mobileCheck cfg device rows =
     (Inr (JSONResponse 200
        [(''emergencyState'', JBool (emergencyState device \<noteq> 0)),
         (''needLockApproval'', JBool (needLockApproval cfg)),
         (''lockApprovalTimeSecond'', JInt (lockApprovalTimeSecond cfg))]),
      rows)"

definition lock_pending :: response where
  "lock_pending = JSONResponse 201
     [(''detail'', JStr ''Lock request received. Please confirm within the approval window.'')]"

definition locked :: response where
  "locked = JSONResponse 200 [(''detail'', JStr ''Device locked (stolen)'')]"

definition mobileLock :: "config \<Rightarrow> datetime \<Rightarrow> device \<Rightarrow> db \<Rightarrow> reply \<times> db" where
  "mobileLock cfg now device rows =
     (let mine = (\<lambda>r. deviceId r = deviceId device) in
      case get_client_device rows (deviceId device) of
        None \<Rightarrow> (Inl (HTTPException 404 ''Device not found''), rows)
      | Some row \<Rightarrow>
          if needLockApproval cfg then
            (case pendingLockTime row of
               None \<Rightarrow>
                 (Inr lock_pending,
                  sql_update mine (\<lambda>r. r\<lparr>pendingLockTime := Some now\<rparr>) rows)
             | Some prevTime \<Rightarrow>
                 if total_seconds (now - prevTime) \<le> of_int (lockApprovalTimeSecond cfg) then
                   (Inr locked,
                    sql_update mine
                      (\<lambda>r. r\<lparr>emergencyState := 1, pendingLockTime := None, lastSeen := Some now\<rparr>)
                      rows)
                 else
                   (Inr lock_pending,
                    sql_update mine (\<lambda>r. r\<lparr>pendingLockTime := Some now\<rparr>) rows))
          else
            (Inr locked,
             sql_update mine (\<lambda>r. r\<lparr>emergencyState := 1, lastSeen := Some now\<rparr>) rows))"

definition unlock_pending :: response where
  "unlock_pending = JSONResponse 201
     [(''detail'', JStr ''Unlock request received. Please confirm within the approval window.'')]"

definition unlocked :: response where
  "unlocked = JSONResponse 200 [(''detail'', JStr ''Device unlocked'')]"

definition mobileUnlock :: "config \<Rightarrow> datetime \<Rightarrow> device \<Rightarrow> db \<Rightarrow> reply \<times> db" where
  "mobileUnlock cfg now device rows =
     (let mine = (\<lambda>r. deviceId r = deviceId device) in
      if userCanUnlock device = 0 then
        (Inl (HTTPException 403 ''Device is not allowed to unlock''), rows)
      else if needLockApproval cfg then
        (case get_client_device rows (deviceId device) of
           None \<Rightarrow> (Inl TypeError, rows)
         | Some row \<Rightarrow>
             (case pendingLockTime row of
                None \<Rightarrow>
                  (Inr unlock_pending,
                   sql_update mine (\<lambda>r. r\<lparr>pendingLockTime := Some now\<rparr>) rows)
              | Some prevTime \<Rightarrow>
                  if total_seconds (now - prevTime) \<le> of_int (lockApprovalTimeSecond cfg) then
                    (Inr unlocked,
                     sql_update mine
                       (\<lambda>r. r\<lparr>emergencyState := 0, pendingLockTime := None, lastSeen := Some now\<rparr>)
                       rows)
                  else
                    (Inl (HTTPException 408 ''Unlock approval timeout. Please try again.''),
                     sql_update mine (\<lambda>r. r\<lparr>pendingLockTime := None\<rparr>) rows)))
      else
        (Inr unlocked,
         sql_update mine (\<lambda>r. r\<lparr>emergencyState := 0, lastSeen := Some now\<rparr>) rows))"

text \<open>
  The admin endpoints read the header \<^verbatim>\<open>X-Admin-Token\<close>, which may be missing. The random
  identifiers and token of a new row are arguments; a row whose \<^verbatim>\<open>deviceId\<close> is taken
  is refused by the primary key.
\<close>

definition adminRegister ::
  "config \<Rightarrow> datetime \<Rightarrow> string option \<Rightarrow> string \<Rightarrow> string \<Rightarrow> string \<Rightarrow> db \<Rightarrow> reply \<times> db" where
  "adminRegister cfg now admin_token newDeviceId newEmergencyId newToken rows =
     (if admin_token \<noteq> Some (adminToken cfg) then
        (Inl (HTTPException 401 ''Invalid admin token''), rows)
      else if newDeviceId \<in> set (map deviceId rows) then
        (Inl (HTTPException 500 ''Database error''), rows)
      else
        (Inr (JSONResponse 200 [(''deviceId'', JStr newDeviceId)]),
         rows @ [\<lparr> deviceId = newDeviceId, emergencyId = newEmergencyId, emergencyState = 0,
                   token = newToken, lastSeen = Some now, hwid = None,
                   pendingLockTime = None, userCanUnlock = 1 \<rparr>]))"

text \<open>An optional string of the request body counts when it is present and not empty.\<close>

fun truthy :: "string option \<Rightarrow> string option" where
  "truthy None = None"
| "truthy (Some s) = (if s = [] then None else Some s)"

definition admin_unlocked :: response where
  "admin_unlocked = JSONResponse 200 [(''detail'', JStr ''Device unlocked by admin'')]"

definition adminUnlock ::
  "config \<Rightarrow> datetime \<Rightarrow> string option \<Rightarrow> string option \<Rightarrow> string option \<Rightarrow> db \<Rightarrow> reply \<times> db" where
  "adminUnlock cfg now admin_token req_deviceId req_emergencyId rows =
     (let clear = (\<lambda>r. r\<lparr>emergencyState := 0, lastSeen := Some now\<rparr>);
          finish = (\<lambda>cond.
            if rowcount cond rows = 0 then (Inl (HTTPException 404 ''Device not found''), rows)
            else (Inr admin_unlocked, sql_update cond clear rows))
      in
      if admin_token \<noteq> Some (adminToken cfg) then
        (Inl (HTTPException 401 ''Invalid admin token''), rows)
      else
        (case truthy req_emergencyId of
           Some e \<Rightarrow> finish (\<lambda>r. emergencyId r = e)
         | None \<Rightarrow>
             (case truthy req_deviceId of
                Some k \<Rightarrow> finish (\<lambda>r. deviceId r = k)
              | None \<Rightarrow> (Inl (HTTPException 400 ''Must provide deviceId or emergencyId''), rows))))"

section \<open>Example data\<close>

text \<open>
  A row as registration creates it, and the library digest at the three inputs the
  examples sign (the values \<^verbatim>\<open>hmac\<close> computes there). The theorems hold for every digest
  function; \<open>example_hexdigest\<close> only instantiates them.
\<close>

definition example_device :: device where
  "example_device =
     \<lparr> deviceId = ''9f86d081884c7d65'', emergencyId = ''2c26b46b68ffc68f'', emergencyState = 0,
       token = ''3a7bd3e2360a3d29eea436fcfb7e44c735d117c42d1c1835420b6b9942dd4f1b'',
       lastSeen = Some 1699999000000000, hwid = None, pendingLockTime = None,
       userCanUnlock = 1 \<rparr>"

definition example_hexdigest :: hexdigest where
  "example_hexdigest key msg =
     (if key = ''3a7bd3e2360a3d29eea436fcfb7e44c735d117c42d1c1835420b6b9942dd4f1b'' \<and>
         msg = ''1700000000''
      then ''7527a5e465b78a5a9ccd8df2d337e032200bc836b0abfb2435a820b2b7237ee8''
      else if key = ''3a7bd3e2360a3d29eea436fcfb7e44c735d117c42d1c1835420b6b9942dd4f1b'' \<and>
         msg = ''253402300800''
      then ''0c642d9d69e0f7796107d45972b517520956fd215bec0ee3b210d00e6a82b23f''
      else if key = ''3a7bd3e2360a3d29eea436fcfb7e44c735d117c42d1c1835420b6b9942dd4f1b'' \<and>
         msg = ''1698539400''
      then ''f9de81df11eb71dd7cadc3557617c84f37c356ef44d1aa89e9fad9a5b356fd7a''
      else replicate 64 (CHR ''0''))"

text \<open>
  \<^verbatim>\<open>datetime.fromtimestamp\<close> on two servers. The first keeps its clock in UTC: the
  datetime of a count is the count, from the second day of year 1 to the end of year
  9999. The second is in a zone that goes from two hours to one hour ahead of UTC at
  01:00 UTC on 29 October 2023, as Europe/Berlin does; it is used at two counts around
  that hour only.
\<close>

definition utc_fromtimestamp :: fromtimestamp where
  "utc_fromtimestamp n =
     (if - 62135510400 \<le> n \<and> n \<le> 253402300799 then Some (n * 1000000) else None)"


text \<open>The table with every stored token replaced, to compare replies across secrets.\<close>

definition retoken :: "(device \<Rightarrow> string) \<Rightarrow> db \<Rightarrow> db" where
  "retoken f rows = map (\<lambda>r. r\<lparr>token := f r\<rparr>) rows"

section \<open>Lookups after updates\<close>

lemma find_key_update:
  assumes "\<And>r. deviceId (f r) = deviceId r"
  shows "get_client_device (sql_update (\<lambda>r. deviceId r = k) f rows) k' =
     (if k' = k then map_option f (get_client_device rows k) else get_client_device rows k')"
  using assms by (induction rows) (auto simp: get_client_device_def sql_update_def)

lemma primary_key_find:
  "primary_key rows \<Longrightarrow> d \<in> set rows \<Longrightarrow> get_client_device rows (deviceId d) = Some d"
  by (induction rows) (auto simp: get_client_device_def primary_key_def)

lemma find_emergency_update:
  assumes "\<And>r. emergencyId (f r) = emergencyId r"
  shows "get_mobile_device_by_emergency (sql_update (\<lambda>r. emergencyId r = e) f rows) e =
     map_option f (get_mobile_device_by_emergency rows e)"
  using assms by (induction rows) (auto simp: get_mobile_device_by_emergency_def sql_update_def)

lemma rowcount_zero: "rowcount cond rows = 0 \<longleftrightarrow> find cond rows = None"
  by (induction rows) (auto simp: rowcount_def)

text \<open>
  The row an authentication dependency hands to its handler is a row of the table, the
  one the identifier of the request selects.
\<close>

lemma verifyClientAuth_row:
  assumes "verifyClientAuth hexdigest fromtimestamp cfg now rows x ts sg = Inr d"
  shows "d \<in> set rows \<and> deviceId d = x \<and>
         verify_hmac hexdigest fromtimestamp cfg now (token d) ts sg = Inr True"
proof -
  from assms obtain r where r: "get_client_device rows x = Some r"
    by (auto simp: verifyClientAuth_def split: option.splits)
  with assms have "r = d" and "verify_hmac hexdigest fromtimestamp cfg now (token d) ts sg = Inr True"
    by (auto simp: verifyClientAuth_def split: sum.splits if_splits)
  moreover from r have "r \<in> set rows \<and> deviceId r = x"
    by (auto simp: get_client_device_def find_Some_iff)
  ultimately show ?thesis by simp
qed

lemma verifyMobileAuth_row:
  assumes "verifyMobileAuth hexdigest fromtimestamp cfg now rows x ts sg = Inr d"
  shows "d \<in> set rows \<and> emergencyId d = x \<and>
         verify_hmac hexdigest fromtimestamp cfg now (token d) ts sg = Inr True"
proof -
  from assms obtain r where r: "get_mobile_device_by_emergency rows x = Some r"
    by (auto simp: verifyMobileAuth_def split: option.splits)
  with assms have "r = d" and "verify_hmac hexdigest fromtimestamp cfg now (token d) ts sg = Inr True"
    by (auto simp: verifyMobileAuth_def split: sum.splits if_splits)
  moreover from r have "r \<in> set rows \<and> emergencyId r = x"
    by (auto simp: get_mobile_device_by_emergency_def find_Some_iff)
  ultimately show ?thesis by simp
qed


section \<open>Rounding to the nearest double\<close>
























section \<open>The permission check of unlock\<close>

text \<open>
  Claim C7. An unlock request by a device whose \<^verbatim>\<open>userCanUnlock\<close> is 0 is answered with
  403 "Device is not allowed to unlock", whatever \<^verbatim>\<open>needLockApproval\<close> says and whatever
  \<^verbatim>\<open>pendingLockTime\<close> holds, and the table is returned as it was: no field of any row
  changes.
\<close>

theorem unlock_permission_denied:
  "userCanUnlock device = 0 \<Longrightarrow>
   mobileUnlock cfg now device rows =
     (Inl (HTTPException 403 ''Device is not allowed to unlock''), rows)"
  by (simp add: mobileUnlock_def)

text \<open>
  The check at a row that is armed, barred from unlocking and waiting for a confirmation,
  with approval switched on.
\<close>

theorem unlock_permission_denied_witness:
  "userCanUnlock (example_device\<lparr>emergencyState := 1, userCanUnlock := 0,
      pendingLockTime := Some 1700000000000000\<rparr>) = 0 \<and>
   mobileUnlock (fallback_config\<lparr>needLockApproval := True\<rparr>) 1700000010000000
     (example_device\<lparr>emergencyState := 1, userCanUnlock := 0,
        pendingLockTime := Some 1700000000000000\<rparr>)
     [example_device\<lparr>emergencyState := 1, userCanUnlock := 0,
        pendingLockTime := Some 1700000000000000\<rparr>] =
     (Inl (HTTPException 403 ''Device is not allowed to unlock''),
      [example_device\<lparr>emergencyState := 1, userCanUnlock := 0,
         pendingLockTime := Some 1700000000000000\<rparr>])"
  using unlock_permission_denied
    [of "example_device\<lparr>emergencyState := 1, userCanUnlock := 0,
           pendingLockTime := Some 1700000000000000\<rparr>"
        "fallback_config\<lparr>needLockApproval := True\<rparr>" 1700000010000000
        "[example_device\<lparr>emergencyState := 1, userCanUnlock := 0,
           pendingLockTime := Some 1700000000000000\<rparr>]"]
  by simp

section \<open>Admin override\<close>

text \<open>
  Claim C1, as the code has it. With the configured admin token and an identifier that
  selects a row (\<^verbatim>\<open>emergencyId\<close> when it is given and not empty, \<^verbatim>\<open>deviceId\<close> otherwise),
  \<^verbatim>\<open>adminUnlock\<close> answers "Device unlocked by admin" and the selected row comes back with
  \<^verbatim>\<open>emergencyState\<close> 0 and \<^verbatim>\<open>lastSeen\<close> set to the current time, in one step, whatever
  \<^verbatim>\<open>pendingLockTime\<close> and the approval setting are. Every other field of the row,
  \<^verbatim>\<open>pendingLockTime\<close> among them, keeps its value.
\<close>

theorem admin_unlock_clears_armed:
  assumes "admin_token = Some (adminToken cfg)"
  shows "(truthy req_emergencyId = Some e \<and> get_mobile_device_by_emergency rows e = Some d \<longrightarrow>
            fst (adminUnlock cfg now admin_token req_deviceId req_emergencyId rows) =
              Inr admin_unlocked \<and>
            get_mobile_device_by_emergency
              (snd (adminUnlock cfg now admin_token req_deviceId req_emergencyId rows)) e =
              Some (d\<lparr>emergencyState := 0, lastSeen := Some now\<rparr>)) \<and>
         (truthy req_emergencyId = None \<and> truthy req_deviceId = Some k \<and>
          get_client_device rows k = Some d \<longrightarrow>
            fst (adminUnlock cfg now admin_token req_deviceId req_emergencyId rows) =
              Inr admin_unlocked \<and>
            get_client_device
              (snd (adminUnlock cfg now admin_token req_deviceId req_emergencyId rows)) k =
              Some (d\<lparr>emergencyState := 0, lastSeen := Some now\<rparr>))"
  using assms
  by (auto simp: adminUnlock_def rowcount_zero find_emergency_update find_key_update
      get_mobile_device_by_emergency_def[symmetric] get_client_device_def[symmetric])

text \<open>
  The override by \<^verbatim>\<open>emergencyId\<close> on an armed row that waits for a confirmation: the row
  is disarmed and still waits.
\<close>

theorem admin_unlock_clears_armed_witness:
  "Some ''supersecretadmin'' = Some (adminToken fallback_config) \<and>
   truthy (Some ''2c26b46b68ffc68f'') = Some ''2c26b46b68ffc68f'' \<and>
   get_mobile_device_by_emergency
     [example_device\<lparr>emergencyState := 1, pendingLockTime := Some 1700000000000000\<rparr>]
     ''2c26b46b68ffc68f'' =
     Some (example_device\<lparr>emergencyState := 1, pendingLockTime := Some 1700000000000000\<rparr>) \<and>
   fst (adminUnlock fallback_config 1700000010000000 (Some ''supersecretadmin'') None
          (Some ''2c26b46b68ffc68f'')
          [example_device\<lparr>emergencyState := 1, pendingLockTime := Some 1700000000000000\<rparr>]) =
     Inr admin_unlocked \<and>
   get_mobile_device_by_emergency
     (snd (adminUnlock fallback_config 1700000010000000 (Some ''supersecretadmin'') None
          (Some ''2c26b46b68ffc68f'')
          [example_device\<lparr>emergencyState := 1, pendingLockTime := Some 1700000000000000\<rparr>]))
     ''2c26b46b68ffc68f'' =
     Some (example_device\<lparr>emergencyState := 0, pendingLockTime := Some 1700000000000000,
             lastSeen := Some 1700000010000000\<rparr>)"
proof -
  let ?row = "example_device\<lparr>emergencyState := 1, pendingLockTime := Some 1700000000000000\<rparr>"
  have tok: "Some ''supersecretadmin'' = Some (adminToken fallback_config)"
    by (simp add: fallback_config_def)
  have sel: "truthy (Some ''2c26b46b68ffc68f'') = Some ''2c26b46b68ffc68f''"
    by simp
  have found: "get_mobile_device_by_emergency [?row] ''2c26b46b68ffc68f'' = Some ?row"
    by (simp add: get_mobile_device_by_emergency_def example_device_def)
  have same: "?row\<lparr>emergencyState := 0, lastSeen := Some 1700000010000000\<rparr> =
      example_device\<lparr>emergencyState := 0, pendingLockTime := Some 1700000000000000,
        lastSeen := Some 1700000010000000\<rparr>"
    by simp
  from admin_unlock_clears_armed [OF tok, of "Some ''2c26b46b68ffc68f''" "''2c26b46b68ffc68f''"
      "[?row]" ?row 1700000010000000 None] sel found same
  show ?thesis using tok by simp
qed

text \<open>
  Claim C1 as it is written fails: the override by \<^verbatim>\<open>deviceId\<close> disarms the row and
  leaves its \<^verbatim>\<open>pendingLockTime\<close> set.
\<close>

theorem admin_unlock_keeps_pending:
  "adminUnlock fallback_config 1700000010000000 (Some ''supersecretadmin'')
     (Some ''9f86d081884c7d65'') None
     [example_device\<lparr>emergencyState := 1, pendingLockTime := Some 1700000000000000\<rparr>] =
   (Inr admin_unlocked,
    [example_device\<lparr>emergencyState := 0, pendingLockTime := Some 1700000000000000,
       lastSeen := Some 1700000010000000\<rparr>]) \<and>
   pendingLockTime (example_device\<lparr>emergencyState := 0,
       pendingLockTime := Some 1700000000000000, lastSeen := Some 1700000010000000\<rparr>) =
     Some 1700000000000000"
  by (simp add: adminUnlock_def fallback_config_def example_device_def rowcount_def sql_update_def)

section \<open>Lock and unlock transitions\<close>

text \<open>
  In the theorems of this section \<open>device\<close> is the row the authentication dependency
  resolved, a row of the table (lemma \<open>verifyMobileAuth_row\<close>), and the table obeys its
  primary key. The record after the call is read back by \<^verbatim>\<open>deviceId\<close>. The age of a
  pending request is \<open>total_seconds (now - pendingLockTime)\<close>, the number the handlers
  compare with \<^verbatim>\<open>lockApprovalTimeSecond\<close>; an age of at most \<open>W\<close> seconds, for \<open>W\<close> below
  \<open>2^53\<close>, measures at most \<open>W\<close> (lemma \<open>total_seconds_le\<close>), and for \<open>W\<close> below \<open>2^33\<close> the
  measure is above \<open>W\<close> exactly when the age is (lemma \<open>total_seconds_le_iff\<close>).
\<close>

lemma total_seconds_10s: "total_seconds 10000000 = 10"
  by (simp add: total_seconds_def nearest_double_def mantissa_def binade_def
      round_half_even_def bit_length.simps)

lemma total_seconds_40s: "total_seconds 40000000 = 40"
  by (simp add: total_seconds_def nearest_double_def mantissa_def binade_def
      round_half_even_def bit_length.simps)

text \<open>
  Claim C2, as the code has it. While \<^verbatim>\<open>needLockApproval\<close> is false, a lock request
  answers "Device locked (stolen)" and leaves the row with \<^verbatim>\<open>emergencyState\<close> 1 and
  \<^verbatim>\<open>lastSeen\<close> set to the current time; an unlock request by a device whose
  \<^verbatim>\<open>userCanUnlock\<close> is not 0 answers "Device unlocked" and leaves the row with
  \<^verbatim>\<open>emergencyState\<close> 0 and \<^verbatim>\<open>lastSeen\<close> set to the current time. Every other field,
  \<^verbatim>\<open>pendingLockTime\<close> among them, keeps its value: an absent one stays absent, a present
  one stays present.
\<close>

theorem single_phase_transition:
  assumes "primary_key rows" and "device \<in> set rows" and "\<not> needLockApproval cfg"
  shows "fst (mobileLock cfg now device rows) = Inr locked \<and>
         get_client_device (snd (mobileLock cfg now device rows)) (deviceId device) =
           Some (device\<lparr>emergencyState := 1, lastSeen := Some now\<rparr>) \<and>
         (userCanUnlock device \<noteq> 0 \<longrightarrow>
            fst (mobileUnlock cfg now device rows) = Inr unlocked \<and>
            get_client_device (snd (mobileUnlock cfg now device rows)) (deviceId device) =
              Some (device\<lparr>emergencyState := 0, lastSeen := Some now\<rparr>))"
  using assms by (simp add: mobileLock_def mobileUnlock_def primary_key_find find_key_update)

text \<open>Both directions on the example row, under the fallback configuration.\<close>

theorem single_phase_transition_witness:
  "primary_key [example_device] \<and> example_device \<in> set [example_device] \<and>
   \<not> needLockApproval fallback_config \<and> userCanUnlock example_device \<noteq> 0 \<and>
   fst (mobileLock fallback_config 1700000010000000 example_device [example_device]) =
     Inr locked \<and>
   get_client_device
     (snd (mobileLock fallback_config 1700000010000000 example_device [example_device]))
     (deviceId example_device) =
     Some (example_device\<lparr>emergencyState := 1, lastSeen := Some 1700000010000000\<rparr>) \<and>
   fst (mobileUnlock fallback_config 1700000010000000 example_device [example_device]) =
     Inr unlocked \<and>
   get_client_device
     (snd (mobileUnlock fallback_config 1700000010000000 example_device [example_device]))
     (deviceId example_device) =
     Some (example_device\<lparr>emergencyState := 0, lastSeen := Some 1700000010000000\<rparr>)"
proof -
  have pk: "primary_key [example_device]" by (simp add: primary_key_def)
  have mem: "example_device \<in> set [example_device]" by simp
  have off: "\<not> needLockApproval fallback_config" by (simp add: fallback_config_def)
  have may: "userCanUnlock example_device \<noteq> 0" by (simp add: example_device_def)
  from single_phase_transition [OF pk mem off, of 1700000010000000] may pk mem off
  show ?thesis by blast
qed

text \<open>
  Claim C2 as it is written fails twice. With approval switched off, a lock request on a
  row whose \<^verbatim>\<open>pendingLockTime\<close> is set (left there while approval was on) arms the row
  and leaves \<^verbatim>\<open>pendingLockTime\<close> set; and an unlock request by a device whose
  \<^verbatim>\<open>userCanUnlock\<close> is 0 is refused with 403, the row staying armed.
\<close>

theorem single_phase_keeps_pending:
  "\<not> needLockApproval fallback_config \<and>
   mobileLock fallback_config 1700000010000000
     (example_device\<lparr>pendingLockTime := Some 1700000000000000\<rparr>)
     [example_device\<lparr>pendingLockTime := Some 1700000000000000\<rparr>] =
     (Inr locked,
      [example_device\<lparr>emergencyState := 1, lastSeen := Some 1700000010000000,
         pendingLockTime := Some 1700000000000000\<rparr>]) \<and>
   mobileUnlock fallback_config 1700000010000000
     (example_device\<lparr>emergencyState := 1, userCanUnlock := 0\<rparr>)
     [example_device\<lparr>emergencyState := 1, userCanUnlock := 0\<rparr>] =
     (Inl (HTTPException 403 ''Device is not allowed to unlock''),
      [example_device\<lparr>emergencyState := 1, userCanUnlock := 0\<rparr>])"
  by (simp add: mobileLock_def mobileUnlock_def fallback_config_def example_device_def
      get_client_device_def sql_update_def total_seconds_10s)

text \<open>
  Claim C6, as the code has it. With \<^verbatim>\<open>needLockApproval\<close> true and \<^verbatim>\<open>pendingLockTime\<close>
  present, a request that arrives with \<open>now - pendingLockTime\<close>, in seconds as
  \<^verbatim>\<open>total_seconds()\<close> gives them, at most \<^verbatim>\<open>lockApprovalTimeSecond\<close> is applied: a lock request answers "Device locked
  (stolen)" and sets \<^verbatim>\<open>emergencyState\<close> to 1, an unlock request by a device whose
  \<^verbatim>\<open>userCanUnlock\<close> is not 0 answers "Device unlocked" and sets it to 0; both clear
  \<^verbatim>\<open>pendingLockTime\<close> and set \<^verbatim>\<open>lastSeen\<close> to the current time.
\<close>

theorem confirm_within_window:
  assumes "primary_key rows" and "device \<in> set rows" and "needLockApproval cfg"
    and "pendingLockTime device = Some prevTime"
    and "total_seconds (now - prevTime) \<le> of_int (lockApprovalTimeSecond cfg)"
  shows "fst (mobileLock cfg now device rows) = Inr locked \<and>
         get_client_device (snd (mobileLock cfg now device rows)) (deviceId device) =
           Some (device\<lparr>emergencyState := 1, pendingLockTime := None, lastSeen := Some now\<rparr>) \<and>
         (userCanUnlock device \<noteq> 0 \<longrightarrow>
            fst (mobileUnlock cfg now device rows) = Inr unlocked \<and>
            get_client_device (snd (mobileUnlock cfg now device rows)) (deviceId device) =
              Some (device\<lparr>emergencyState := 0, pendingLockTime := None,
                      lastSeen := Some now\<rparr>))"
  using assms by (simp add: mobileLock_def mobileUnlock_def primary_key_find find_key_update)

text \<open>A confirmation 10 seconds after the first request, the window being 30 seconds.\<close>

theorem confirm_within_window_witness:
  "primary_key [example_device\<lparr>pendingLockTime := Some 1700000000000000\<rparr>] \<and>
   example_device\<lparr>pendingLockTime := Some 1700000000000000\<rparr>
     \<in> set [example_device\<lparr>pendingLockTime := Some 1700000000000000\<rparr>] \<and>
   needLockApproval (fallback_config\<lparr>needLockApproval := True\<rparr>) \<and>
   pendingLockTime (example_device\<lparr>pendingLockTime := Some 1700000000000000\<rparr>) =
     Some 1700000000000000 \<and>
   total_seconds (1700000010000000 - 1700000000000000)
     \<le> of_int (lockApprovalTimeSecond (fallback_config\<lparr>needLockApproval := True\<rparr>)) \<and>
   userCanUnlock (example_device\<lparr>pendingLockTime := Some 1700000000000000\<rparr>) \<noteq> 0 \<and>
   fst (mobileLock (fallback_config\<lparr>needLockApproval := True\<rparr>) 1700000010000000
          (example_device\<lparr>pendingLockTime := Some 1700000000000000\<rparr>)
          [example_device\<lparr>pendingLockTime := Some 1700000000000000\<rparr>]) = Inr locked \<and>
   get_client_device
     (snd (mobileLock (fallback_config\<lparr>needLockApproval := True\<rparr>) 1700000010000000
          (example_device\<lparr>pendingLockTime := Some 1700000000000000\<rparr>)
          [example_device\<lparr>pendingLockTime := Some 1700000000000000\<rparr>]))
     (deviceId example_device) =
     Some (example_device\<lparr>emergencyState := 1, pendingLockTime := None,
             lastSeen := Some 1700000010000000\<rparr>) \<and>
   fst (mobileUnlock (fallback_config\<lparr>needLockApproval := True\<rparr>) 1700000010000000
          (example_device\<lparr>pendingLockTime := Some 1700000000000000\<rparr>)
          [example_device\<lparr>pendingLockTime := Some 1700000000000000\<rparr>]) = Inr unlocked \<and>
   get_client_device
     (snd (mobileUnlock (fallback_config\<lparr>needLockApproval := True\<rparr>) 1700000010000000
          (example_device\<lparr>pendingLockTime := Some 1700000000000000\<rparr>)
          [example_device\<lparr>pendingLockTime := Some 1700000000000000\<rparr>]))
     (deviceId example_device) =
     Some (example_device\<lparr>emergencyState := 0, pendingLockTime := None,
             lastSeen := Some 1700000010000000\<rparr>)"
proof -
  let ?dev = "example_device\<lparr>pendingLockTime := Some 1700000000000000\<rparr>"
  let ?cfg = "fallback_config\<lparr>needLockApproval := True\<rparr>"
  have pk: "primary_key [?dev]" by (simp add: primary_key_def)
  have mem: "?dev \<in> set [?dev]" by simp
  have on: "needLockApproval ?cfg" by simp
  have pend: "pendingLockTime ?dev = Some 1700000000000000" by simp
  have win: "total_seconds (1700000010000000 - 1700000000000000) \<le> of_int (lockApprovalTimeSecond ?cfg)"
    by (simp add: fallback_config_def total_seconds_10s total_seconds_40s)
  have may: "userCanUnlock ?dev \<noteq> 0" by (simp add: example_device_def)
  from confirm_within_window [OF pk mem on pend win] may pk mem on pend win
  show ?thesis by simp
qed

text \<open>
  Claim C6 as it is written fails twice. Within the window, an unlock request by a device
  whose \<^verbatim>\<open>userCanUnlock\<close> is 0 is refused with 403 and nothing changes; and with approval
  switched off a lock request arms the row and leaves \<^verbatim>\<open>pendingLockTime\<close> set.
\<close>

theorem confirm_within_window_exceptions:
  "total_seconds (1700000010000000 - 1700000000000000)
     \<le> of_int (lockApprovalTimeSecond (fallback_config\<lparr>needLockApproval := True\<rparr>)) \<and>
   mobileUnlock (fallback_config\<lparr>needLockApproval := True\<rparr>) 1700000010000000
     (example_device\<lparr>emergencyState := 1, userCanUnlock := 0,
        pendingLockTime := Some 1700000000000000\<rparr>)
     [example_device\<lparr>emergencyState := 1, userCanUnlock := 0,
        pendingLockTime := Some 1700000000000000\<rparr>] =
     (Inl (HTTPException 403 ''Device is not allowed to unlock''),
      [example_device\<lparr>emergencyState := 1, userCanUnlock := 0,
         pendingLockTime := Some 1700000000000000\<rparr>]) \<and>
   total_seconds (1700000010000000 - 1700000000000000) \<le> of_int (lockApprovalTimeSecond fallback_config) \<and>
   mobileLock fallback_config 1700000010000000
     (example_device\<lparr>pendingLockTime := Some 1700000000000000\<rparr>)
     [example_device\<lparr>pendingLockTime := Some 1700000000000000\<rparr>] =
     (Inr locked,
      [example_device\<lparr>emergencyState := 1, lastSeen := Some 1700000010000000,
         pendingLockTime := Some 1700000000000000\<rparr>])"
  by (simp add: mobileLock_def mobileUnlock_def fallback_config_def example_device_def
      get_client_device_def sql_update_def total_seconds_10s)



text \<open>
  Claim C10. The row records when a confirmation was asked for, not for which direction.
  Let a first lock request at \<open>t1\<close> be answered 201 "Lock request received", so that it sets
  \<^verbatim>\<open>pendingLockTime\<close> to \<open>t1\<close>. An unlock request at \<open>t2\<close> within the window (\<open>t2 - t1\<close>, in
  seconds as \<^verbatim>\<open>total_seconds()\<close> gives them, at most \<^verbatim>\<open>lockApprovalTimeSecond\<close>), by the same
  device with \<^verbatim>\<open>userCanUnlock\<close> not 0, is then taken as the confirmation: it answers
  "Device unlocked" and leaves the row disarmed with no \<^verbatim>\<open>pendingLockTime\<close>. In the same
  way a first unlock request answered 201 "Unlock request received" is confirmed by a
  lock request within the window, which arms the row.
\<close>

theorem pending_has_no_direction:
  assumes "primary_key rows" and "device \<in> set rows" and "userCanUnlock device \<noteq> 0"
    and "total_seconds (t2 - t1) \<le> of_int (lockApprovalTimeSecond cfg)"
  shows "(fst (mobileLock cfg t1 device rows) = Inr lock_pending \<longrightarrow>
            get_client_device (snd (mobileLock cfg t1 device rows)) (deviceId device) =
              Some (device\<lparr>pendingLockTime := Some t1\<rparr>) \<and>
            fst (mobileUnlock cfg t2 (device\<lparr>pendingLockTime := Some t1\<rparr>)
                   (snd (mobileLock cfg t1 device rows))) = Inr unlocked \<and>
            get_client_device
              (snd (mobileUnlock cfg t2 (device\<lparr>pendingLockTime := Some t1\<rparr>)
                      (snd (mobileLock cfg t1 device rows))))
              (deviceId device) =
              Some (device\<lparr>emergencyState := 0, pendingLockTime := None,
                      lastSeen := Some t2\<rparr>)) \<and>
         (fst (mobileUnlock cfg t1 device rows) = Inr unlock_pending \<longrightarrow>
            get_client_device (snd (mobileUnlock cfg t1 device rows)) (deviceId device) =
              Some (device\<lparr>pendingLockTime := Some t1\<rparr>) \<and>
            fst (mobileLock cfg t2 (device\<lparr>pendingLockTime := Some t1\<rparr>)
                   (snd (mobileUnlock cfg t1 device rows))) = Inr locked \<and>
            get_client_device
              (snd (mobileLock cfg t2 (device\<lparr>pendingLockTime := Some t1\<rparr>)
                      (snd (mobileUnlock cfg t1 device rows))))
              (deviceId device) =
              Some (device\<lparr>emergencyState := 1, pendingLockTime := None,
                      lastSeen := Some t2\<rparr>))"
proof (intro conjI impI)
  assume first: "fst (mobileLock cfg t1 device rows) = Inr lock_pending"
  have found: "get_client_device rows (deviceId device) = Some device"
    using assms(1,2) by (rule primary_key_find)
  have on: "needLockApproval cfg"
  proof (rule ccontr)
    assume "\<not> needLockApproval cfg"
    with found have "fst (mobileLock cfg t1 device rows) = Inr locked"
      by (simp add: mobileLock_def)
    with first show False by (simp add: locked_def lock_pending_def)
  qed
  have rows1: "snd (mobileLock cfg t1 device rows) =
      sql_update (\<lambda>r. deviceId r = deviceId device) (\<lambda>r. r\<lparr>pendingLockTime := Some t1\<rparr>) rows"
  proof (cases "pendingLockTime device")
    case None
    with found on show ?thesis by (simp add: mobileLock_def)
  next
    case (Some p)
    show ?thesis
    proof (cases "total_seconds (t1 - p) \<le> of_int (lockApprovalTimeSecond cfg)")
      case True
      with Some found on have "fst (mobileLock cfg t1 device rows) = Inr locked"
        by (simp add: mobileLock_def)
      with first show ?thesis by (simp add: locked_def lock_pending_def)
    next
      case False
      with Some found on show ?thesis by (simp add: mobileLock_def)
    qed
  qed
  show "get_client_device (snd (mobileLock cfg t1 device rows)) (deviceId device) =
      Some (device\<lparr>pendingLockTime := Some t1\<rparr>)"
    by (simp add: rows1 find_key_update found)
  show "fst (mobileUnlock cfg t2 (device\<lparr>pendingLockTime := Some t1\<rparr>)
      (snd (mobileLock cfg t1 device rows))) = Inr unlocked"
    using assms(3,4) on by (simp add: rows1 mobileUnlock_def find_key_update found)
  show "get_client_device
      (snd (mobileUnlock cfg t2 (device\<lparr>pendingLockTime := Some t1\<rparr>)
              (snd (mobileLock cfg t1 device rows))))
      (deviceId device) =
      Some (device\<lparr>emergencyState := 0, pendingLockTime := None, lastSeen := Some t2\<rparr>)"
    using assms(3,4) on by (simp add: rows1 mobileUnlock_def find_key_update found)
next
  assume first: "fst (mobileUnlock cfg t1 device rows) = Inr unlock_pending"
  have found: "get_client_device rows (deviceId device) = Some device"
    using assms(1,2) by (rule primary_key_find)
  have on: "needLockApproval cfg"
  proof (rule ccontr)
    assume "\<not> needLockApproval cfg"
    with assms(3) have "fst (mobileUnlock cfg t1 device rows) = Inr unlocked"
      by (simp add: mobileUnlock_def)
    with first show False by (simp add: unlocked_def unlock_pending_def)
  qed
  have rows1: "snd (mobileUnlock cfg t1 device rows) =
      sql_update (\<lambda>r. deviceId r = deviceId device) (\<lambda>r. r\<lparr>pendingLockTime := Some t1\<rparr>) rows"
  proof (cases "pendingLockTime device")
    case None
    with found on assms(3) show ?thesis by (simp add: mobileUnlock_def)
  next
    case (Some p)
    show ?thesis
    proof (cases "total_seconds (t1 - p) \<le> of_int (lockApprovalTimeSecond cfg)")
      case True
      with Some found on assms(3) have "fst (mobileUnlock cfg t1 device rows) = Inr unlocked"
        by (simp add: mobileUnlock_def)
      with first show ?thesis by (simp add: unlocked_def unlock_pending_def)
    next
      case False
      with Some found on assms(3) have "fst (mobileUnlock cfg t1 device rows) =
          Inl (HTTPException 408 ''Unlock approval timeout. Please try again.'')"
        by (simp add: mobileUnlock_def)
      with first show ?thesis by simp
    qed
  qed
  show "get_client_device (snd (mobileUnlock cfg t1 device rows)) (deviceId device) =
      Some (device\<lparr>pendingLockTime := Some t1\<rparr>)"
    by (simp add: rows1 find_key_update found)
  show "fst (mobileLock cfg t2 (device\<lparr>pendingLockTime := Some t1\<rparr>)
      (snd (mobileUnlock cfg t1 device rows))) = Inr locked"
    using assms(4) on by (simp add: rows1 mobileLock_def find_key_update found)
  show "get_client_device
      (snd (mobileLock cfg t2 (device\<lparr>pendingLockTime := Some t1\<rparr>)
              (snd (mobileUnlock cfg t1 device rows))))
      (deviceId device) =
      Some (device\<lparr>emergencyState := 1, pendingLockTime := None, lastSeen := Some t2\<rparr>)"
    using assms(4) on by (simp add: rows1 mobileLock_def find_key_update found)
qed

text \<open>
  The armed example row: a lock request at second 0 asks for a confirmation, and the
  unlock request at second 10 disarms the row. The idle example row: an unlock request
  asks for a confirmation, and the lock request 10 seconds later arms it.
\<close>

theorem pending_has_no_direction_witness:
  "primary_key [example_device] \<and> example_device \<in> set [example_device] \<and>
   userCanUnlock example_device \<noteq> 0 \<and>
   total_seconds (1700000010000000 - 1700000000000000)
     \<le> of_int (lockApprovalTimeSecond (fallback_config\<lparr>needLockApproval := True\<rparr>)) \<and>
   fst (mobileLock (fallback_config\<lparr>needLockApproval := True\<rparr>) 1700000000000000
          example_device [example_device]) = Inr lock_pending \<and>
   fst (mobileUnlock (fallback_config\<lparr>needLockApproval := True\<rparr>) 1700000010000000
          (example_device\<lparr>pendingLockTime := Some 1700000000000000\<rparr>)
          (snd (mobileLock (fallback_config\<lparr>needLockApproval := True\<rparr>) 1700000000000000
                  example_device [example_device]))) = Inr unlocked \<and>
   get_client_device
     (snd (mobileUnlock (fallback_config\<lparr>needLockApproval := True\<rparr>) 1700000010000000
            (example_device\<lparr>pendingLockTime := Some 1700000000000000\<rparr>)
            (snd (mobileLock (fallback_config\<lparr>needLockApproval := True\<rparr>) 1700000000000000
                    example_device [example_device]))))
     (deviceId example_device) =
     Some (example_device\<lparr>emergencyState := 0, pendingLockTime := None,
             lastSeen := Some 1700000010000000\<rparr>) \<and>
   fst (mobileUnlock (fallback_config\<lparr>needLockApproval := True\<rparr>) 1700000000000000
          example_device [example_device]) = Inr unlock_pending \<and>
   fst (mobileLock (fallback_config\<lparr>needLockApproval := True\<rparr>) 1700000010000000
          (example_device\<lparr>pendingLockTime := Some 1700000000000000\<rparr>)
          (snd (mobileUnlock (fallback_config\<lparr>needLockApproval := True\<rparr>) 1700000000000000
                  example_device [example_device]))) = Inr locked \<and>
   get_client_device
     (snd (mobileLock (fallback_config\<lparr>needLockApproval := True\<rparr>) 1700000010000000
            (example_device\<lparr>pendingLockTime := Some 1700000000000000\<rparr>)
            (snd (mobileUnlock (fallback_config\<lparr>needLockApproval := True\<rparr>) 1700000000000000
                    example_device [example_device]))))
     (deviceId example_device) =
     Some (example_device\<lparr>emergencyState := 1, pendingLockTime := None,
             lastSeen := Some 1700000010000000\<rparr>)"
proof -
  let ?cfg = "fallback_config\<lparr>needLockApproval := True\<rparr>"
  have pk: "primary_key [example_device]" by (simp add: primary_key_def)
  have mem: "example_device \<in> set [example_device]" by simp
  have may: "userCanUnlock example_device \<noteq> 0" by (simp add: example_device_def)
  have win: "total_seconds (1700000010000000 - 1700000000000000) \<le> of_int (lockApprovalTimeSecond ?cfg)"
    by (simp add: fallback_config_def total_seconds_10s total_seconds_40s)
  have first_lock:
    "fst (mobileLock ?cfg 1700000000000000 example_device [example_device]) = Inr lock_pending"
    by (simp add: mobileLock_def get_client_device_def example_device_def)
  have first_unlock:
    "fst (mobileUnlock ?cfg 1700000000000000 example_device [example_device]) =
       Inr unlock_pending"
    by (simp add: mobileUnlock_def get_client_device_def example_device_def)
  from pending_has_no_direction [OF pk mem may win] first_lock first_unlock pk mem may win
  show ?thesis by simp
qed

section \<open>Status checks\<close>

text \<open>
  Claim C9, as the code has it. A client status check (\<^verbatim>\<open>/client/AmIOk\<close>) sets the
  \<^verbatim>\<open>lastSeen\<close> of the device's row to the current time and changes no other field, whether
  it answers "ok" (row not armed) or 403 "Device marked as stolen" (row armed). The mobile
  check (\<^verbatim>\<open>/mobile/check\<close>) writes nothing: the table comes back as it was, \<^verbatim>\<open>lastSeen\<close>
  included.
\<close>

theorem status_check_effects:
  assumes "primary_key rows" and "device \<in> set rows"
  shows "get_client_device (snd (clientAmIOk now device rows)) (deviceId device) =
           Some (device\<lparr>lastSeen := Some now\<rparr>) \<and>
         fst (clientAmIOk now device rows) =
           (if emergencyState device = 0 then Inr (JSONResponse 200 [(''status'', JStr ''ok'')])
            else Inl (HTTPException 403 ''Device marked as stolen'')) \<and>
         snd (mobileCheck cfg device rows) = rows"
  using assms
  by (simp add: clientAmIOk_def mobileCheck_def primary_key_find find_key_update Let_def)

text \<open>Both checks on the example row, which was last seen 1010 seconds earlier.\<close>

theorem status_check_effects_witness:
  "primary_key [example_device] \<and> example_device \<in> set [example_device] \<and>
   get_client_device (snd (clientAmIOk 1700000010000000 example_device [example_device]))
     (deviceId example_device) =
     Some (example_device\<lparr>lastSeen := Some 1700000010000000\<rparr>) \<and>
   fst (clientAmIOk 1700000010000000 example_device [example_device]) =
     Inr (JSONResponse 200 [(''status'', JStr ''ok'')]) \<and>
   snd (mobileCheck fallback_config example_device [example_device]) = [example_device]"
proof -
  have pk: "primary_key [example_device]" by (simp add: primary_key_def)
  have mem: "example_device \<in> set [example_device]" by simp
  have idle: "emergencyState example_device = 0" by (simp add: example_device_def)
  from status_check_effects [OF pk mem, of 1700000010000000 fallback_config] idle pk mem
  show ?thesis by simp
qed

text \<open>
  Claim C9 as it is written fails for the mobile check: answered at any later time, it
  leaves the row's \<^verbatim>\<open>lastSeen\<close> at the old value.
\<close>

theorem mobile_check_keeps_lastSeen:
  "mobileCheck fallback_config example_device [example_device] =
     (Inr (JSONResponse 200
        [(''emergencyState'', JBool False), (''needLockApproval'', JBool False),
         (''lockApprovalTimeSecond'', JInt 30)]),
      [example_device]) \<and>
   lastSeen example_device = Some 1699999000000000"
  by (simp add: mobileCheck_def fallback_config_def example_device_def)

section \<open>The signature verifier\<close>




lemma verify_hmac_raises:
  "verify_hmac hexdigest fromtimestamp cfg now secret timestamp signature = Inl e \<Longrightarrow>
   e = TypeError"
  by (auto simp: verify_hmac_def compare_digest_def split: option.splits if_splits)

lemma py_int_1700000000: "py_int ''1700000000'' = Some 1700000000"
  by (simp add: py_int_def strip_def is_space_def parse_unsigned_def is_digit_def digit_val_def)




lemma total_seconds_2s: "total_seconds 2000000 = 2"
  by (simp add: total_seconds_def nearest_double_def mantissa_def binade_def
      round_half_even_def bit_length.simps)



section \<open>Authentication failures\<close>

lemma verify_hmac_rejects:
  assumes "py_int timestamp = None \<or>
           (\<exists>n. py_int timestamp = Some n \<and>
                (fromtimestamp n = None \<or>
                 (\<exists>req. fromtimestamp n = Some req \<and>
                        \<bar>total_seconds (now - req)\<bar> > of_int (hmacWindow cfg)))) \<or>
           (is_ascii signature \<and> is_ascii (hexdigest secret timestamp) \<and>
            signature \<noteq> hexdigest secret timestamp)"
  shows "verify_hmac hexdigest fromtimestamp cfg now secret timestamp signature = Inr False"
  using assms
  by (auto simp: verify_hmac_def compare_digest_def split: option.splits)

text \<open>
  Claim C4, as the code has it. On the client path and on the mobile path, an identifier
  that resolves to no row is answered with 401 "Device not found". An identifier that
  resolves to a row is answered with 401 "Invalid HMAC signature" when the timestamp is
  no integer, when it is no datetime, when it lies outside the window (in seconds as
  \<^verbatim>\<open>total_seconds()\<close> gives them), and when the signature is ASCII text that differs from
  the digest: one reply, whichever of these sub-checks failed. The two failures share
  the status 401 and differ in the detail. A signature with a character outside ASCII is
  not covered.
\<close>

theorem auth_failure_replies:
  "(get_client_device rows x = None \<longrightarrow>
      verifyClientAuth hexdigest fromtimestamp cfg now rows x ts sg =
        Inl (HTTPException 401 ''Device not found'')) \<and>
   (get_client_device rows x = Some d \<and>
    (py_int ts = None \<or>
     (\<exists>n. py_int ts = Some n \<and>
          (fromtimestamp n = None \<or>
           (\<exists>req. fromtimestamp n = Some req \<and>
                  \<bar>total_seconds (now - req)\<bar> > of_int (hmacWindow cfg)))) \<or>
     (is_ascii sg \<and> is_ascii (hexdigest (token d) ts) \<and> sg \<noteq> hexdigest (token d) ts)) \<longrightarrow>
      verifyClientAuth hexdigest fromtimestamp cfg now rows x ts sg =
        Inl (HTTPException 401 ''Invalid HMAC signature'')) \<and>
   (get_mobile_device_by_emergency rows x = None \<longrightarrow>
      verifyMobileAuth hexdigest fromtimestamp cfg now rows x ts sg =
        Inl (HTTPException 401 ''Device not found'')) \<and>
   (get_mobile_device_by_emergency rows x = Some d \<and>
    (py_int ts = None \<or>
     (\<exists>n. py_int ts = Some n \<and>
          (fromtimestamp n = None \<or>
           (\<exists>req. fromtimestamp n = Some req \<and>
                  \<bar>total_seconds (now - req)\<bar> > of_int (hmacWindow cfg)))) \<or>
     (is_ascii sg \<and> is_ascii (hexdigest (token d) ts) \<and> sg \<noteq> hexdigest (token d) ts)) \<longrightarrow>
      verifyMobileAuth hexdigest fromtimestamp cfg now rows x ts sg =
        Inl (HTTPException 401 ''Invalid HMAC signature''))"
proof (intro conjI impI)
  assume "get_client_device rows x = None"
  then show "verifyClientAuth hexdigest fromtimestamp cfg now rows x ts sg =
      Inl (HTTPException 401 ''Device not found'')"
    by (simp add: verifyClientAuth_def)
next
  assume "get_mobile_device_by_emergency rows x = None"
  then show "verifyMobileAuth hexdigest fromtimestamp cfg now rows x ts sg =
      Inl (HTTPException 401 ''Device not found'')"
    by (simp add: verifyMobileAuth_def)
next
  assume fails: "get_client_device rows x = Some d \<and>
    (py_int ts = None \<or>
     (\<exists>n. py_int ts = Some n \<and>
          (fromtimestamp n = None \<or>
           (\<exists>req. fromtimestamp n = Some req \<and>
                  \<bar>total_seconds (now - req)\<bar> > of_int (hmacWindow cfg)))) \<or>
     (is_ascii sg \<and> is_ascii (hexdigest (token d) ts) \<and> sg \<noteq> hexdigest (token d) ts))"
  then have "verify_hmac hexdigest fromtimestamp cfg now (token d) ts sg = Inr False"
    by (intro verify_hmac_rejects) simp
  with fails show "verifyClientAuth hexdigest fromtimestamp cfg now rows x ts sg =
      Inl (HTTPException 401 ''Invalid HMAC signature'')"
    by (simp add: verifyClientAuth_def)
next
  assume fails: "get_mobile_device_by_emergency rows x = Some d \<and>
    (py_int ts = None \<or>
     (\<exists>n. py_int ts = Some n \<and>
          (fromtimestamp n = None \<or>
           (\<exists>req. fromtimestamp n = Some req \<and>
                  \<bar>total_seconds (now - req)\<bar> > of_int (hmacWindow cfg)))) \<or>
     (is_ascii sg \<and> is_ascii (hexdigest (token d) ts) \<and> sg \<noteq> hexdigest (token d) ts))"
  then have "verify_hmac hexdigest fromtimestamp cfg now (token d) ts sg = Inr False"
    by (intro verify_hmac_rejects) simp
  with fails show "verifyMobileAuth hexdigest fromtimestamp cfg now rows x ts sg =
      Inl (HTTPException 401 ''Invalid HMAC signature'')"
    by (simp add: verifyMobileAuth_def)
qed

text \<open>
  The client path on the server in UTC. No row has the identifier of sixteen zeros. The
  example device's own identifier resolves; a timestamp that is no integer fails the
  check, and so does a fresh timestamp with a signature whose last digit is wrong.
\<close>

theorem auth_failure_replies_witness:
  "get_client_device [example_device] ''0000000000000000'' = None \<and>
   verifyClientAuth example_hexdigest utc_fromtimestamp fallback_config 1700000002000000
     [example_device] ''0000000000000000'' ''yesterday'' ''00'' =
     Inl (HTTPException 401 ''Device not found'') \<and>
   get_client_device [example_device] ''9f86d081884c7d65'' = Some example_device \<and>
   py_int ''yesterday'' = None \<and>
   verifyClientAuth example_hexdigest utc_fromtimestamp fallback_config 1700000002000000
     [example_device] ''9f86d081884c7d65'' ''yesterday'' ''00'' =
     Inl (HTTPException 401 ''Invalid HMAC signature'') \<and>
   is_ascii ''7527a5e465b78a5a9ccd8df2d337e032200bc836b0abfb2435a820b2b7237ee9'' \<and>
   is_ascii (example_hexdigest (token example_device) ''1700000000'') \<and>
   ''7527a5e465b78a5a9ccd8df2d337e032200bc836b0abfb2435a820b2b7237ee9'' \<noteq>
     example_hexdigest (token example_device) ''1700000000'' \<and>
   verifyClientAuth example_hexdigest utc_fromtimestamp fallback_config 1700000002000000
     [example_device] ''9f86d081884c7d65'' ''1700000000''
     ''7527a5e465b78a5a9ccd8df2d337e032200bc836b0abfb2435a820b2b7237ee9'' =
     Inl (HTTPException 401 ''Invalid HMAC signature'')"
proof -
  have unknown: "get_client_device [example_device] ''0000000000000000'' = None"
    by (simp add: get_client_device_def example_device_def)
  have known: "get_client_device [example_device] ''9f86d081884c7d65'' = Some example_device"
    by (simp add: get_client_device_def example_device_def)
  have no_int: "py_int ''yesterday'' = None"
    by (simp add: py_int_def strip_def is_space_def parse_unsigned_def is_digit_def)
  have ascii_sg: "is_ascii ''7527a5e465b78a5a9ccd8df2d337e032200bc836b0abfb2435a820b2b7237ee9''"
    by (simp add: is_ascii_def)
  have ascii_digest: "is_ascii (example_hexdigest (token example_device) ''1700000000'')"
    by (simp add: is_ascii_def example_hexdigest_def example_device_def)
  have wrong: "''7527a5e465b78a5a9ccd8df2d337e032200bc836b0abfb2435a820b2b7237ee9'' \<noteq>
      example_hexdigest (token example_device) ''1700000000''"
    by (simp add: example_hexdigest_def example_device_def)
  from auth_failure_replies [where rows = "[example_device]" and x = "''0000000000000000''"
      and hexdigest = example_hexdigest and fromtimestamp = utc_fromtimestamp
      and cfg = fallback_config and now = 1700000002000000 and ts = "''yesterday''"
      and sg = "''00''" and d = example_device] unknown
  have one: "verifyClientAuth example_hexdigest utc_fromtimestamp fallback_config
      1700000002000000 [example_device] ''0000000000000000'' ''yesterday'' ''00'' =
      Inl (HTTPException 401 ''Device not found'')"
    by simp
  from auth_failure_replies [where rows = "[example_device]" and x = "''9f86d081884c7d65''"
      and hexdigest = example_hexdigest and fromtimestamp = utc_fromtimestamp
      and cfg = fallback_config and now = 1700000002000000 and ts = "''yesterday''"
      and sg = "''00''" and d = example_device] known no_int
  have two: "verifyClientAuth example_hexdigest utc_fromtimestamp fallback_config
      1700000002000000 [example_device] ''9f86d081884c7d65'' ''yesterday'' ''00'' =
      Inl (HTTPException 401 ''Invalid HMAC signature'')"
    by simp
  from auth_failure_replies [where rows = "[example_device]" and x = "''9f86d081884c7d65''"
      and hexdigest = example_hexdigest and fromtimestamp = utc_fromtimestamp
      and cfg = fallback_config and now = 1700000002000000 and ts = "''1700000000''"
      and sg = "''7527a5e465b78a5a9ccd8df2d337e032200bc836b0abfb2435a820b2b7237ee9''"
      and d = example_device] known ascii_sg ascii_digest wrong
  have three: "verifyClientAuth example_hexdigest utc_fromtimestamp fallback_config
      1700000002000000 [example_device] ''9f86d081884c7d65'' ''1700000000''
      ''7527a5e465b78a5a9ccd8df2d337e032200bc836b0abfb2435a820b2b7237ee9'' =
      Inl (HTTPException 401 ''Invalid HMAC signature'')"
    by blast
  show ?thesis
    by (intro conjI) (fact unknown one known no_int two ascii_sg ascii_digest wrong three)+
qed

text \<open>
  Claim C4 as it is written fails: with a fresh timestamp, an unknown identifier and a
  known identifier with a wrong signature get replies that differ, on both paths.
\<close>

theorem auth_failures_differ:
  "verifyClientAuth example_hexdigest utc_fromtimestamp fallback_config 1700000002000000
     [example_device] ''0000000000000000'' ''1700000000''
     ''7527a5e465b78a5a9ccd8df2d337e032200bc836b0abfb2435a820b2b7237ee8'' =
     Inl (HTTPException 401 ''Device not found'') \<and>
   verifyClientAuth example_hexdigest utc_fromtimestamp fallback_config 1700000002000000
     [example_device] ''9f86d081884c7d65'' ''1700000000''
     ''7527a5e465b78a5a9ccd8df2d337e032200bc836b0abfb2435a820b2b7237ee9'' =
     Inl (HTTPException 401 ''Invalid HMAC signature'') \<and>
   verifyMobileAuth example_hexdigest utc_fromtimestamp fallback_config 1700000002000000
     [example_device] ''0000000000000000'' ''1700000000''
     ''7527a5e465b78a5a9ccd8df2d337e032200bc836b0abfb2435a820b2b7237ee8'' =
     Inl (HTTPException 401 ''Device not found'') \<and>
   verifyMobileAuth example_hexdigest utc_fromtimestamp fallback_config 1700000002000000
     [example_device] ''2c26b46b68ffc68f'' ''1700000000''
     ''7527a5e465b78a5a9ccd8df2d337e032200bc836b0abfb2435a820b2b7237ee9'' =
     Inl (HTTPException 401 ''Invalid HMAC signature'') \<and>
   HTTPException 401 ''Device not found'' \<noteq> HTTPException 401 ''Invalid HMAC signature''"
  by (simp add: verifyClientAuth_def verifyMobileAuth_def get_client_device_def
      get_mobile_device_by_emergency_def verify_hmac_def py_int_1700000000
      utc_fromtimestamp_def total_seconds_2s compare_digest_def is_ascii_def
      example_hexdigest_def example_device_def fallback_config_def)
section \<open>Where the token goes\<close>

lemma retoken_find_device:
  "get_client_device (retoken f rows) k =
     map_option (\<lambda>r. r\<lparr>token := f r\<rparr>) (get_client_device rows k)"
  by (induction rows) (auto simp: retoken_def get_client_device_def)

lemma retoken_rowcount_device:
  "rowcount (\<lambda>r. deviceId r = k) (retoken f rows) = rowcount (\<lambda>r. deviceId r = k) rows"
  by (induction rows) (auto simp: retoken_def rowcount_def)

lemma retoken_rowcount_emergency:
  "rowcount (\<lambda>r. emergencyId r = e) (retoken f rows) = rowcount (\<lambda>r. emergencyId r = e) rows"
  by (induction rows) (auto simp: retoken_def rowcount_def)

lemma retoken_deviceIds: "map deviceId (retoken f rows) = map deviceId rows"
  by (simp add: retoken_def comp_def)

lemma reply_clientAmIOk:
  "fst (clientAmIOk now (device\<lparr>token := s\<rparr>) (retoken f rows)) =
   fst (clientAmIOk now device rows)"
  by (simp add: clientAmIOk_def find_key_update retoken_find_device Let_def
      split: option.splits)

lemma reply_mobileLock:
  "fst (mobileLock cfg now (device\<lparr>token := s\<rparr>) (retoken f rows)) =
   fst (mobileLock cfg now device rows)"
  by (simp add: mobileLock_def retoken_find_device Let_def split: option.splits)

lemma reply_mobileUnlock:
  "fst (mobileUnlock cfg now (device\<lparr>token := s\<rparr>) (retoken f rows)) =
   fst (mobileUnlock cfg now device rows)"
  by (simp add: mobileUnlock_def retoken_find_device Let_def split: option.splits)

lemma reply_adminUnlock:
  "fst (adminUnlock cfg now tok a b (retoken f rows)) = fst (adminUnlock cfg now tok a b rows)"
  by (simp add: adminUnlock_def retoken_rowcount_device retoken_rowcount_emergency Let_def
      split: option.splits)

lemma reply_adminRegister:
  "fst (adminRegister cfg now tok i e s (retoken f rows)) =
   fst (adminRegister cfg now tok i e s' rows)"
  by (simp add: adminRegister_def retoken_deviceIds)

lemma auth_errors_client:
  "(case verifyClientAuth hexdigest fromtimestamp cfg now rows x ts sg of
      Inr d \<Rightarrow> True
    | Inl e \<Rightarrow> e = HTTPException 401 ''Device not found'' \<or>
               e = HTTPException 401 ''Invalid HMAC signature'' \<or> e = TypeError)"
  by (auto simp: verifyClientAuth_def split: option.splits sum.splits dest: verify_hmac_raises)

lemma auth_errors_mobile:
  "(case verifyMobileAuth hexdigest fromtimestamp cfg now rows x ts sg of
      Inr d \<Rightarrow> True
    | Inl e \<Rightarrow> e = HTTPException 401 ''Device not found'' \<or>
               e = HTTPException 401 ''Invalid HMAC signature'' \<or> e = TypeError)"
  by (auto simp: verifyMobileAuth_def split: option.splits sum.splits dest: verify_hmac_raises)

text \<open>
  Claim C8, as the code has it. The token is sent by registration and also by
  \<^verbatim>\<open>/client/decrypt\<close>, which answers an authenticated device that is not armed with its
  token as plain text. No other endpoint sends a token: the replies of the status check,
  the mobile check, lock, unlock and the admin override are the same whatever tokens the
  table and the authenticated row hold, the reply of the admin registration is the same
  whatever token it draws, and a failed authentication is one of three fixed errors.
\<close>

theorem replies_without_token:
  "fst (clientAmIOk now (device\<lparr>token := s\<rparr>) (retoken f rows)) =
     fst (clientAmIOk now device rows) \<and>
   fst (mobileCheck cfg (device\<lparr>token := s\<rparr>) (retoken f rows)) =
     fst (mobileCheck cfg device rows) \<and>
   fst (mobileLock cfg now (device\<lparr>token := s\<rparr>) (retoken f rows)) =
     fst (mobileLock cfg now device rows) \<and>
   fst (mobileUnlock cfg now (device\<lparr>token := s\<rparr>) (retoken f rows)) =
     fst (mobileUnlock cfg now device rows) \<and>
   fst (adminUnlock cfg now tok a b (retoken f rows)) = fst (adminUnlock cfg now tok a b rows) \<and>
   fst (adminRegister cfg now tok i e s (retoken f rows)) =
     fst (adminRegister cfg now tok i e s' rows) \<and>
   (case verifyClientAuth hexdigest fromtimestamp cfg now rows x ts sg of
      Inr d \<Rightarrow> True
    | Inl err \<Rightarrow> err = HTTPException 401 ''Device not found'' \<or>
                 err = HTTPException 401 ''Invalid HMAC signature'' \<or> err = TypeError) \<and>
   (case verifyMobileAuth hexdigest fromtimestamp cfg now rows x ts sg of
      Inr d \<Rightarrow> True
    | Inl err \<Rightarrow> err = HTTPException 401 ''Device not found'' \<or>
                 err = HTTPException 401 ''Invalid HMAC signature'' \<or> err = TypeError) \<and>
   (emergencyState device = 0 \<longrightarrow>
      fst (clientDecrypt device rows) = Inr (PlainTextResponse 200 (token device)))"
proof (intro conjI impI)
  show "fst (mobileCheck cfg (device\<lparr>token := s\<rparr>) (retoken f rows)) =
      fst (mobileCheck cfg device rows)"
    by (simp add: mobileCheck_def)
  show "fst (clientDecrypt device rows) = Inr (PlainTextResponse 200 (token device))"
    if "emergencyState device = 0"
    using that by (simp add: clientDecrypt_def)
qed (rule reply_clientAmIOk reply_mobileLock reply_mobileUnlock reply_adminUnlock
      reply_adminRegister auth_errors_client auth_errors_mobile)+

text \<open>
  The example row against the same row holding another token: the lock reply is the
  same, and the decrypt reply is the token.
\<close>

theorem replies_without_token_witness:
  "emergencyState example_device = 0 \<and>
   fst (clientDecrypt example_device [example_device]) =
     Inr (PlainTextResponse 200 (token example_device)) \<and>
   fst (mobileLock fallback_config 1700000010000000 (example_device\<lparr>token := ''0a''\<rparr>)
          (retoken (\<lambda>r. ''0a'') [example_device])) =
     fst (mobileLock fallback_config 1700000010000000 example_device [example_device]) \<and>
   fst (clientAmIOk 1700000010000000 (example_device\<lparr>token := ''0a''\<rparr>)
          (retoken (\<lambda>r. ''0a'') [example_device])) =
     fst (clientAmIOk 1700000010000000 example_device [example_device])"
proof -
  have idle: "emergencyState example_device = 0" by (simp add: example_device_def)
  from replies_without_token [where device = example_device and rows = "[example_device]"
      and now = 1700000010000000 and cfg = fallback_config and s = "''0a''"
      and f = "\<lambda>r. ''0a''"] idle
  show ?thesis by simp
qed

text \<open>
  Claim C8 as it is written fails: \<^verbatim>\<open>/client/decrypt\<close> is no registration, and its reply
  to the example device is the device's token.
\<close>

theorem decrypt_returns_token:
  "clientDecrypt example_device [example_device] =
     (Inr (PlainTextResponse 200
        ''3a7bd3e2360a3d29eea436fcfb7e44c735d117c42d1c1835420b6b9942dd4f1b''),
      [example_device]) \<and>
   token example_device = ''3a7bd3e2360a3d29eea436fcfb7e44c735d117c42d1c1835420b6b9942dd4f1b''"
  by (simp add: clientDecrypt_def example_device_def)

end
